theory Spec2Isabelle
  imports Complex_Main "HOL-Library.Sublist"
begin

section \<open>The AiConfigHelper component (src/src/AiConfigHelper.tsx)\<close>

text \<open>
  The component is a React function component: four pieces of view state
  (\<open>anchorEl\<close>, \<open>userInput\<close>, \<open>messages\<close>, \<open>isLoading\<close>) and a handful of event
  handlers that update them. Each handler is embedded as a function on a record of the
  state. The one asynchronous handler, \<open>handleSendMessage\<close>, is split at its
  \<open>await\<close>: the part that runs inside the event, and the part that runs when the awaited
  promise settles; between the two, any other handler may run. A handler reads the state
  of the latest render, which is the state the event before it left; a functional update
  \<open>setMessages((prev) => ...)\<close> is applied to that state as well. Logging to the console
  and moving the focus or the scroll position change none of the four and are left out.

  What belongs to the JavaScript runtime and not to the repository (\<open>JSON.parse\<close>,
  \<open>JSON.stringify\<close>, the rendering of numbers, the wording of a \<open>TypeError\<close>, the
  clock behind \<open>new Date()\<close> and the number \<open>Math.random()\<close> returns) is a parameter
  of the model: a theorem holds for every runtime.
\<close>

subsection \<open>JavaScript values\<close>

text \<open>
  A JavaScript string is a sequence of code units; the model keeps the code units
  below 256 (\<open>char\<close> is eight bits wide), read as Latin-1. A number is a double:
  every finite double is a rational, and the three special values are kept apart.
\<close>

datatype jsnumber = Finite rat | NaN | PosInfinity | NegInfinity

text \<open>
  The values a payload of type \<open>any\<close> can hold, up to functions and symbols. An array or
  an object is a tree here; one that reaches itself is not a value of this type, and
  stands behind the runtime's \<open>JSON.stringify\<close>, which may throw on any value.
\<close>

datatype jsvalue =
    JUndefined
  | JNull
  | JBoolean bool
  | JNumber jsnumber
  | JBigInt int
  | JString string
  | JArray "jsvalue list"
  | JObject "(string \<times> jsvalue) list"

text \<open>
  A thrown value, or the reason a promise rejects with: an instance of \<open>Error\<close> with its
  \<open>message\<close>, or any other value.
\<close>

datatype exn = Error string | NonError jsvalue

text \<open>The \<open>typeof\<close> operator.\<close>

fun typeof :: "jsvalue \<Rightarrow> string" where
  "typeof JUndefined = ''undefined''"
| "typeof JNull = ''object''"
| "typeof (JBoolean b) = ''boolean''"
| "typeof (JNumber n) = ''number''"
| "typeof (JBigInt n) = ''bigint''"
| "typeof (JString s) = ''string''"
| "typeof (JArray xs) = ''object''"
| "typeof (JObject kvs) = ''object''"

text \<open>
  The runtime: \<open>JSON.parse(text)\<close>, which returns a value or throws a \<open>SyntaxError\<close>;
  \<open>JSON.stringify(v, null, indent)\<close> on a value whose \<open>typeof\<close> is \<open>"object"\<close>, which
  returns a string or throws a \<open>TypeError\<close> (on a value that reaches itself, and on one
  that holds a bigint); \<open>Number.prototype.toString\<close> and \<open>BigInt.prototype.toString\<close>;
  \<open>Object.prototype.toString\<close> and \<open>Array.prototype.toString\<close>; and the message of the
  \<open>TypeError\<close> thrown when the named property is read from \<open>undefined\<close> or \<open>null\<close>
  (each engine words it differently).
\<close>

record runtime =
  JSON_parse :: "string \<Rightarrow> exn + jsvalue"
  JSON_stringify :: "jsvalue \<Rightarrow> nat \<Rightarrow> exn + string"
  Number_toString :: "jsnumber \<Rightarrow> string"
  BigInt_toString :: "int \<Rightarrow> string"
  Object_toString :: "jsvalue \<Rightarrow> string"
  TypeError_message :: "string \<Rightarrow> string"

text \<open>The method call \<open>v.toString()\<close>.\<close>

fun toString :: "runtime \<Rightarrow> jsvalue \<Rightarrow> exn + string" where
  "toString rt JUndefined = Inl (Error (TypeError_message rt ''toString''))"
| "toString rt JNull = Inl (Error (TypeError_message rt ''toString''))"
| "toString rt (JBoolean b) = Inr (if b then ''true'' else ''false'')"
| "toString rt (JNumber n) = Inr (Number_toString rt n)"
| "toString rt (JBigInt n) = Inr (BigInt_toString rt n)"
| "toString rt (JString s) = Inr s"
| "toString rt (JArray xs) = Inr (Object_toString rt (JArray xs))"
| "toString rt (JObject kvs) = Inr (Object_toString rt (JObject kvs))"

text \<open>
  \<open>String.prototype.trim\<close> removes white space and line terminators from both ends. Below
  256 these are TAB, LF, VT, FF, CR, SP and NBSP.
\<close>

definition isWhiteSpace :: "char \<Rightarrow> bool" where
  "isWhiteSpace c = (of_char c \<in> {9, 10, 11, 12, 13, 32, 160 :: nat})"

definition trim :: "string \<Rightarrow> string" where
  "trim s = rev (dropWhile isWhiteSpace (rev (dropWhile isWhiteSpace s)))"

text \<open>
  \<open>String.prototype.toLowerCase\<close>: below 256 the letters with a lower-case form are
  A to Z and the Latin-1 capitals U+00C0 to U+00DE without the multiplication sign
  U+00D7; the lower-case form is 32 code units up.
\<close>

definition toLowerCase_char :: "char \<Rightarrow> char" where
  "toLowerCase_char c =
     (let n = (of_char c :: nat)
      in if (65 \<le> n \<and> n \<le> 90) \<or> (192 \<le> n \<and> n \<le> 214) \<or> (216 \<le> n \<and> n \<le> 222)
         then char_of (n + 32) else c)"

definition toLowerCase :: "string \<Rightarrow> string" where
  "toLowerCase s = map toLowerCase_char s"

text \<open>\<open>s.includes(t)\<close>: \<open>t\<close> occurs in \<open>s\<close> as a contiguous run.\<close>

fun includes_str :: "string \<Rightarrow> string \<Rightarrow> bool" where
  "includes_str [] t = (t = [])"
| "includes_str (c # cs) t = (prefix t (c # cs) \<or> includes_str cs t)"

subsection \<open>Types (the module \<open>./types\<close>: Message, MessageResponse, AiConfigHelperProps)\<close>

text \<open>A \<open>Date\<close> is its time value, in milliseconds.\<close>

type_synonym Date = int

record Message =
  "text" :: string
  isUser :: bool
  timestamp :: Date

record MessageResponse =
  payload :: jsvalue

datatype AiConfigHelperPlacement = Top | Bottom | Left | Right

text \<open>An optional property is \<open>None\<close> when it is absent (\<open>undefined\<close>).\<close>

record styles_prop =
  width :: "jsnumber option"
  maxHeight :: "jsnumber option"
  assistantMessageColor :: "string option"
  userMessageColor :: "string option"
  userMessageTextColor :: "string option"

text \<open>
  The props. \<open>onApplyValue\<close> is a function that returns nothing: the model keeps whether
  a call of it returns (\<open>None\<close>) or throws. \<open>onSendMessage\<close> returns a promise: the model
  keeps what the promise settles with, the response it fulfils with or the reason it
  rejects with (a handler that throws before returning a promise counts as rejecting).
  The \<open>icon\<close> is presentation only and left out.
\<close>

record AiConfigHelperProps =
  fieldId :: string
  fieldName :: string
  onApplyValue :: "(jsvalue \<Rightarrow> exn option) option"
  placement :: "AiConfigHelperPlacement option"
  onSendMessage :: "(string \<Rightarrow> exn + MessageResponse) option"
  welcomeMessage :: "string option"
  helpButtonLabel :: "string option"
  styles :: "styles_prop option"

subsection \<open>State\<close>

text \<open>The anchor is the element the popover hangs on; the panel is open when there is one.\<close>

type_synonym HTMLElement = nat

record state =
  anchorEl :: "HTMLElement option"
  userInput :: string
  messages :: "Message list"
  isLoading :: bool

subsection \<open>Defaults\<close>

text \<open>
  \<open>a || b\<close> on an optional property: \<open>a\<close> when it is present and truthy, else \<open>b\<close>. A
  number is falsy when it is zero or \<open>NaN\<close>, a string when it is empty.
\<close>

definition truthy_number :: "jsnumber \<Rightarrow> bool" where
  "truthy_number n = (n \<noteq> Finite 0 \<and> n \<noteq> NaN)"

definition truthy_string :: "string \<Rightarrow> bool" where
  "truthy_string s = (s \<noteq> [])"

definition or_else :: "('a \<Rightarrow> bool) \<Rightarrow> 'a option \<Rightarrow> 'a \<Rightarrow> 'a" where
  "or_else truthy a b = (case a of None \<Rightarrow> b | Some x \<Rightarrow> if truthy x then x else b)"

record component_styles =
  cs_width :: jsnumber
  cs_maxHeight :: jsnumber
  cs_userMessageColor :: string
  cs_userMessageTextColor :: string
  cs_assistantMessageColor :: string

text \<open>The parameter default \<open>styles = {}\<close>: an object with every property absent.\<close>

definition styles_default :: styles_prop where
  "styles_default =
     \<lparr>width = None, maxHeight = None, assistantMessageColor = None,
      userMessageColor = None, userMessageTextColor = None\<rparr>"

definition componentStyles :: "AiConfigHelperProps \<Rightarrow> component_styles" where
  "componentStyles props =
     (let st = (case styles props of None \<Rightarrow> styles_default | Some st \<Rightarrow> st)
      in \<lparr>cs_width = or_else truthy_number (width st) (Finite 320),
          cs_maxHeight = or_else truthy_number (maxHeight st) (Finite 400),
          cs_userMessageColor = or_else truthy_string (userMessageColor st) ''primary.main'',
          cs_userMessageTextColor = or_else truthy_string (userMessageTextColor st) ''white'',
          cs_assistantMessageColor =
            or_else truthy_string (assistantMessageColor st) ''grey.100''\<rparr>)"

definition defaultWelcomeMessage :: "AiConfigHelperProps \<Rightarrow> string" where
  "defaultWelcomeMessage props =
     ''Hi there! I'm AiConfigHelper. How can I help you configure the \"''
       @ fieldName props @ ''\" field?''"

subsection \<open>Opening, closing, typing\<close>

text \<open>
  \<open>handleOpenChat\<close>: \<open>currentTarget\<close> is the trigger that was clicked, \<open>now\<close> what
  \<open>new Date()\<close> reads. (The deferred focus of the input field changes no state.)
\<close>

definition handleOpenChat ::
  "AiConfigHelperProps \<Rightarrow> HTMLElement \<Rightarrow> Date \<Rightarrow> state \<Rightarrow> state" where
  "handleOpenChat props currentTarget now s =
     (let s1 = s\<lparr>anchorEl := Some currentTarget\<rparr>
      in if length (messages s) = 0
         then s1\<lparr>messages :=
                  [\<lparr>text = or_else truthy_string (welcomeMessage props)
                              (defaultWelcomeMessage props),
                    isUser = False, timestamp = now\<rparr>]\<rparr>
         else s1)"

definition handleCloseChat :: "state \<Rightarrow> state" where
  "handleCloseChat s = s\<lparr>anchorEl := None\<rparr>"

definition handleInputChange :: "string \<Rightarrow> state \<Rightarrow> state" where
  "handleInputChange v s = s\<lparr>userInput := v\<rparr>"

subsection \<open>The mock response\<close>

text \<open>
  The test \<open>fieldName.toLowerCase().includes("json") ||
  fieldName.toLowerCase().includes("schema")\<close>, which the source writes out once for each
  of the three responses.
\<close>

definition json_or_schema :: "AiConfigHelperProps \<Rightarrow> bool" where
  "json_or_schema props =
     (includes_str (toLowerCase (fieldName props)) ''json'' \<or>
      includes_str (toLowerCase (fieldName props)) ''schema'')"

definition responses :: "AiConfigHelperProps \<Rightarrow> MessageResponse list" where
  "responses props =
     [\<lparr>payload =
         (if json_or_schema props
          then JObject
                 [(''schema'',
                   JObject
                     [(''type'', JString ''object''),
                      (''properties'',
                       JObject
                         [(''name'', JObject [(''type'', JString ''string'')]),
                          (''age'', JObject [(''type'', JString ''number'')])])])]
          else JString ''This is a sample note from AI assistant.'')\<rparr>,
      \<lparr>payload =
         (if json_or_schema props
          then JObject
                 [(''example'',
                   JObject
                     [(''name'', JString ''John Doe''),
                      (''age'', JNumber (Finite 30))])]
          else JString ''Another helpful note for your reference.'')\<rparr>,
      \<lparr>payload =
         (if json_or_schema props
          then JObject
                 [(''configuration'',
                   JObject
                     [(''required'', JArray [JString ''name'']),
                      (''additionalProperties'', JBoolean False)])]
          else JString ''AI-generated content for the notes field.'')\<rparr>]"

text \<open>
  \<open>mockApiResponse\<close> returns \<open>responses[Math.floor(Math.random() * responses.length)]\<close>;
  \<open>random\<close> is the number \<open>Math.random()\<close> returns, which the runtime takes from 0
  (included) to 1 (excluded). The product is taken exactly here, where a double product
  is rounded to the nearest double. Reading an array outside its bounds gives
  \<open>undefined\<close>, here \<open>None\<close>.
\<close>

definition mockApiResponse :: "AiConfigHelperProps \<Rightarrow> rat \<Rightarrow> MessageResponse option" where
  "mockApiResponse props random =
     (let i = \<lfloor>random * of_nat (length (responses props))\<rfloor>
      in if 0 \<le> i \<and> i < int (length (responses props))
         then Some (responses props ! nat i) else None)"

subsection \<open>Sending a message\<close>

text \<open>
  What \<open>handleSendMessage\<close> is waiting for at its \<open>await\<close>: the promise that
  \<open>onSendMessage\<close> returned for the text it was called with, or a timer of so many
  milliseconds.
\<close>

datatype awaited =
    OnSendMessage string "exn + MessageResponse"
  | SetTimeout nat

text \<open>\<open>setMessages((prev) => [...prev, m])\<close>.\<close>

definition append_message :: "Message \<Rightarrow> state \<Rightarrow> state" where
  "append_message m s = s\<lparr>messages := messages s @ [m]\<rparr>"

text \<open>
  \<open>handleSendMessage\<close> up to its \<open>await\<close>: the new state, and what is awaited
  (\<open>None\<close> when the function returned at once).
\<close>

definition handleSendMessage ::
  "AiConfigHelperProps \<Rightarrow> Date \<Rightarrow> state \<Rightarrow> state \<times> awaited option" where
  "handleSendMessage props now s =
     (if trim (userInput s) = [] then (s, None)
      else
        let userMessage = \<lparr>text = trim (userInput s), isUser = True, timestamp = now\<rparr>;
            s1 = append_message userMessage s;
            s2 = s1\<lparr>userInput := []\<rparr>;
            s3 = s2\<lparr>isLoading := True\<rparr>
        in (s3,
            Some (case onSendMessage props of
                    Some handler \<Rightarrow> OnSendMessage (text userMessage) (handler (text userMessage))
                  | None \<Rightarrow> SetTimeout 1000)))"

text \<open>
  What the \<open>await\<close> yields into \<open>response\<close>: the handler's promise fulfils with a
  response or rejects (the \<open>await\<close> throws); after the timer, \<open>mockApiResponse()\<close> is
  called, with \<open>random\<close> what its \<open>Math.random()\<close> returns.
\<close>

definition settle :: "AiConfigHelperProps \<Rightarrow> awaited \<Rightarrow> rat \<Rightarrow> exn + MessageResponse option" where
  "settle props a random =
     (case a of
        OnSendMessage t promise \<Rightarrow>
          (case promise of Inl reason \<Rightarrow> Inl reason | Inr response \<Rightarrow> Inr (Some response))
      | SetTimeout ms \<Rightarrow> Inr (mockApiResponse props random))"

text \<open>
  The text of the payload message: \<open>typeof response.payload === "object" ?
  JSON.stringify(response.payload, null, 2) : response.payload.toString()\<close>. Reading
  \<open>payload\<close> from an undefined response throws.
\<close>

definition payload_text :: "runtime \<Rightarrow> MessageResponse option \<Rightarrow> exn + string" where
  "payload_text rt response =
     (case response of
        None \<Rightarrow> Inl (Error (TypeError_message rt ''payload''))
      | Some r \<Rightarrow>
          if typeof (payload r) = ''object'' then JSON_stringify rt (payload r) 2
          else toString rt (payload r))"

text \<open>The \<open>catch\<close> block and the \<open>finally\<close> block.\<close>

definition catch_block :: "exn \<Rightarrow> Date \<Rightarrow> state \<Rightarrow> state" where
  "catch_block error now s =
     append_message
       \<lparr>text = ''Sorry, I encountered an error: '' @
                 (case error of Error message \<Rightarrow> message | NonError v \<Rightarrow> ''Unknown error''),
        isUser = False, timestamp = now\<rparr> s"

definition finally_block :: "state \<Rightarrow> state" where
  "finally_block s = s\<lparr>isLoading := False\<rparr>"

text \<open>
  \<open>handleSendMessage\<close> from its \<open>await\<close> on, in the state \<open>s\<close> the component is in by
  then. \<open>settled\<close> is what the \<open>await\<close> yields, \<open>date k\<close> what the \<open>k\<close>-th \<open>new Date()\<close>
  of this run reads. The first component of the result is the reason the promise of
  \<open>handleSendMessage\<close> itself rejects with, \<open>None\<close> when it fulfils.
\<close>

definition handleSendMessage_resume ::
  "runtime \<Rightarrow> AiConfigHelperProps \<Rightarrow> exn + MessageResponse option \<Rightarrow> (nat \<Rightarrow> Date) \<Rightarrow> state
     \<Rightarrow> exn option \<times> state" where
  "handleSendMessage_resume rt props settled date s =
     (case settled of
        Inl error \<Rightarrow> (None, finally_block (catch_block error (date 0) s))
      | Inr response \<Rightarrow>
          let aiMessage =
                \<lparr>text = ''Here's what I suggest for the \"'' @ fieldName props @ ''\" field:'',
                 isUser = False, timestamp = date 0\<rparr>;
              s1 = append_message aiMessage s
          in (case payload_text rt response of
                Inl error \<Rightarrow> (None, finally_block (catch_block error (date 1) s1))
              | Inr t \<Rightarrow>
                  let payloadMessage = \<lparr>text = t, isUser = False, timestamp = date 1\<rparr>;
                      s2 = append_message payloadMessage s1;
                      suggestionMessage =
                        \<lparr>text = ''Would you like to apply this value to the field? Just click on the message.'',
                         isUser = False, timestamp = date 2\<rparr>;
                      s3 = append_message suggestionMessage s2
                  in (None, finally_block s3)))"

text \<open>\<open>handleKeyPress\<close>, on the input field's \<open>keydown\<close>.\<close>

definition handleKeyPress ::
  "AiConfigHelperProps \<Rightarrow> string \<Rightarrow> bool \<Rightarrow> Date \<Rightarrow> state \<Rightarrow> state \<times> awaited option" where
  "handleKeyPress props key shiftKey now s =
     (if key = ''Enter'' \<and> \<not> shiftKey then handleSendMessage props now s else (s, None))"

text \<open>
  The send button: \<open>disabled={userInput.trim() === "" || isLoading}\<close>,
  \<open>onClick={handleSendMessage}\<close>. A disabled button fires no click.
\<close>

definition sendButton_disabled :: "state \<Rightarrow> bool" where
  "sendButton_disabled s = (trim (userInput s) = [] \<or> isLoading s)"

definition sendButton_onClick ::
  "AiConfigHelperProps \<Rightarrow> Date \<Rightarrow> state \<Rightarrow> state \<times> awaited option" where
  "sendButton_onClick props now s =
     (if sendButton_disabled s then (s, None) else handleSendMessage props now s)"

subsection \<open>Applying a value\<close>

text \<open>
  \<open>handleApplyValue\<close> changes no state of the component. Its result is the list of
  arguments \<open>onApplyValue\<close> was called with, in order, and the exception that leaves the
  function, if any. The call \<open>onApplyValue(value)\<close> stands inside the \<open>try\<close>: when it
  throws, the \<open>catch\<close> block runs as it does for a text that does not parse.
\<close>

definition handleApplyValue ::
  "runtime \<Rightarrow> AiConfigHelperProps \<Rightarrow> string \<Rightarrow> jsvalue list \<times> exn option" where
  "handleApplyValue rt props t =
     (case onApplyValue props of
        None \<Rightarrow> ([], None)
      | Some callback \<Rightarrow>
          (case JSON_parse rt t of
             Inr v \<Rightarrow>
               (case callback v of
                  None \<Rightarrow> ([v], None)
                | Some error \<Rightarrow> ([v, JString t], callback (JString t)))
           | Inl error \<Rightarrow> ([JString t], callback (JString t))))"

text \<open>A message bubble: \<open>onClick={() => !message.isUser && handleApplyValue(message.text)}\<close>.\<close>

definition message_onClick ::
  "runtime \<Rightarrow> AiConfigHelperProps \<Rightarrow> Message \<Rightarrow> jsvalue list \<times> exn option" where
  "message_onClick rt props m =
     (if \<not> isUser m then handleApplyValue rt props (text m) else ([], None))"

subsection \<open>The component as a transition system\<close>

text \<open>
  Everything that can happen to a mounted component: the user opens or closes the
  panel, types, presses a key in the input field, clicks the send button or a message,
  and an awaited promise settles.
\<close>

datatype event =
    OpenChat HTMLElement Date
  | CloseChat
  | InputChange string
  | KeyDown string bool Date
  | SendClick Date
  | MessageClick Message
  | Settled "exn + MessageResponse option" "nat \<Rightarrow> Date"

fun step :: "runtime \<Rightarrow> AiConfigHelperProps \<Rightarrow> event \<Rightarrow> state \<Rightarrow> state" where
  "step rt props (OpenChat el now) s = handleOpenChat props el now s"
| "step rt props CloseChat s = handleCloseChat s"
| "step rt props (InputChange v) s = handleInputChange v s"
| "step rt props (KeyDown key shiftKey now) s = fst (handleKeyPress props key shiftKey now s)"
| "step rt props (SendClick now) s = fst (sendButton_onClick props now s)"
| "step rt props (MessageClick m) s = s"
| "step rt props (Settled settled date) s = snd (handleSendMessage_resume rt props settled date s)"

text \<open>A run: the events in the order they happen.\<close>

fun run :: "runtime \<Rightarrow> AiConfigHelperProps \<Rightarrow> event list \<Rightarrow> state \<Rightarrow> state" where
  "run rt props [] s = s"
| "run rt props (e # es) s = run rt props es (step rt props e s)"

text \<open>The state of a freshly mounted component.\<close>

definition initial_state :: state where
  "initial_state = \<lparr>anchorEl = None, userInput = [], messages = [], isLoading = False\<rparr>"

subsection \<open>Inputs of the worked examples\<close>

text \<open>
  The props of the README's three usage examples: the notes field, the JSON schema
  editor, and the field with a custom handler (the handler is the parameter). Their
  \<open>onApplyValue\<close> is a state setter, which returns.
\<close>

definition notes_props :: AiConfigHelperProps where
  "notes_props =
     \<lparr>fieldId = ''notes'', fieldName = ''Notes'', onApplyValue = Some (\<lambda>v. None),
      placement = None, onSendMessage = None, welcomeMessage = None,
      helpButtonLabel = None, styles = None\<rparr>"

definition schema_props :: AiConfigHelperProps where
  "schema_props =
     \<lparr>fieldId = ''schema'', fieldName = ''JSON Schema'', onApplyValue = Some (\<lambda>v. None),
      placement = None, onSendMessage = None, welcomeMessage = None,
      helpButtonLabel = None, styles = None\<rparr>"

definition custom_props :: "(string \<Rightarrow> exn + MessageResponse) \<Rightarrow> AiConfigHelperProps" where
  "custom_props handler =
     \<lparr>fieldId = ''custom'', fieldName = ''Custom Field'', onApplyValue = Some (\<lambda>v. None),
      placement = None, onSendMessage = Some handler,
      welcomeMessage = Some ''Hello! I'm your custom AI assistant. How can I help you today?'',
      helpButtonLabel = None, styles = None\<rparr>"

text \<open>
  A fragment of a runtime, for the examples only. It agrees with JavaScript on the
  arguments the examples give it: \<open>JSON.parse\<close> on the text \<open>{"x":1}\<close> and on a text that
  is no JSON; \<open>JSON.stringify\<close> on \<open>null\<close> and on the object \<open>{id: 1n}\<close>, which holds a
  bigint; \<open>toString\<close> on the number 1 and the bigint 1; and the wording V8 gives its
  \<open>TypeError\<close>s.
\<close>

definition example_runtime :: runtime where
  "example_runtime =
     \<lparr>JSON_parse =
        (\<lambda>t. if t = ''{\"x\":1}'' then Inr (JObject [(''x'', JNumber (Finite 1))])
             else Inl (Error ''Unexpected token'')),
      JSON_stringify =
        (\<lambda>v indent.
           if v = JNull then Inr ''null''
           else if v = JObject [(''id'', JBigInt 1)]
           then Inl (Error ''Do not know how to serialize a BigInt'')
           else Inr ''{}''),
      Number_toString = (\<lambda>n. if n = Finite 1 then ''1'' else ''0''),
      BigInt_toString = (\<lambda>n. if n = 1 then ''1'' else ''0''),
      Object_toString = (\<lambda>v. ''[object Object]''),
      TypeError_message =
        (\<lambda>p. ''Cannot read properties of undefined (reading '' @ [CHR 0x27] @ p @
               [CHR 0x27] @ '')'')\<rparr>"

text \<open>An open panel with the given messages, input text and busy flag.\<close>

definition chat :: "Message list \<Rightarrow> string \<Rightarrow> bool \<Rightarrow> state" where
  "chat ms input busy = \<lparr>anchorEl = Some 0, userInput = input, messages = ms, isLoading = busy\<rparr>"

text \<open>The default welcome message of the notes field, created at time 1.\<close>

definition welcome_notes :: Message where
  "welcome_notes =
     \<lparr>text = ''Hi there! I'm AiConfigHelper. How can I help you configure the \"Notes\" field?'',
      isUser = False, timestamp = 1\<rparr>"

text \<open>The welcome message of the field with a custom handler, created at time 1.\<close>

definition welcome_custom :: Message where
  "welcome_custom =
     \<lparr>text = ''Hello! I'm your custom AI assistant. How can I help you today?'',
      isUser = False, timestamp = 1\<rparr>"

section \<open>Properties\<close>

subsection \<open>Strings\<close>

text \<open>
  \<open>trim\<close> leaves nothing exactly of the strings that hold white space only, and
  \<open>includes_str\<close> is the test for a contiguous run; through \<open>toLowerCase\<close>, which maps
  code unit by code unit, it is the test for a run that reads as the given text once
  lower-cased.
\<close>

lemma dropWhile_all: "(\<forall>x\<in>set (dropWhile P xs). P x) \<longleftrightarrow> (\<forall>x\<in>set xs. P x)"
  by (induction xs) auto

lemma trim_eq_Nil_iff: "trim s = [] \<longleftrightarrow> (\<forall>c\<in>set s. isWhiteSpace c)"
proof -
  have "trim s = [] \<longleftrightarrow> (\<forall>c\<in>set (rev (dropWhile isWhiteSpace s)). isWhiteSpace c)"
    by (simp add: trim_def dropWhile_eq_Nil_conv)
  also have "\<dots> \<longleftrightarrow> (\<forall>c\<in>set s. isWhiteSpace c)"
    by (simp add: dropWhile_all)
  finally show ?thesis .
qed



subsection \<open>What each handler does to the state\<close>

lemma messages_handleOpenChat:
  "messages (handleOpenChat props el now s) =
     (if messages s = []
      then [\<lparr>text = or_else truthy_string (welcomeMessage props) (defaultWelcomeMessage props),
             isUser = False, timestamp = now\<rparr>]
      else messages s)"
  by (simp add: handleOpenChat_def Let_def)

lemma messages_handleCloseChat: "messages (handleCloseChat s) = messages s"
  by (simp add: handleCloseChat_def)

lemma messages_handleInputChange: "messages (handleInputChange v s) = messages s"
  by (simp add: handleInputChange_def)

lemma handleSendMessage_blank:
  "trim (userInput s) = [] \<Longrightarrow> handleSendMessage props now s = (s, None)"
  by (simp add: handleSendMessage_def)

lemma handleSendMessage_nonblank:
  "trim (userInput s) \<noteq> [] \<Longrightarrow>
   handleSendMessage props now s =
     (s\<lparr>messages := messages s @ [\<lparr>text = trim (userInput s), isUser = True, timestamp = now\<rparr>],
        userInput := [], isLoading := True\<rparr>,
      Some (case onSendMessage props of
              Some handler \<Rightarrow> OnSendMessage (trim (userInput s)) (handler (trim (userInput s)))
            | None \<Rightarrow> SetTimeout 1000))"
  by (simp add: handleSendMessage_def Let_def append_message_def split: option.split)

lemma resume_rejected:
  "handleSendMessage_resume rt props (Inl e) date s =
     (None,
      s\<lparr>messages := messages s @
           [\<lparr>text = ''Sorry, I encountered an error: '' @
                     (case e of Error m \<Rightarrow> m | NonError v \<Rightarrow> ''Unknown error''),
             isUser = False, timestamp = date 0\<rparr>],
        isLoading := False\<rparr>)"
  by (simp add: handleSendMessage_resume_def catch_block_def finally_block_def
      append_message_def)

lemma payload_text_rendered:
  assumes "payload r \<noteq> JUndefined"
    and "typeof (payload r) = ''object'' \<longrightarrow> JSON_stringify rt (payload r) 2 = Inr json"
  shows "payload_text rt (Some r) =
     Inr (case payload r of
            JString u \<Rightarrow> u
          | JNumber n \<Rightarrow> Number_toString rt n
          | JBigInt n \<Rightarrow> BigInt_toString rt n
          | JBoolean b \<Rightarrow> (if b then ''true'' else ''false'')
          | _ \<Rightarrow> json)"
  using assms by (cases "payload r") (simp_all add: payload_text_def)

lemma payload_text_throws_iff:
  "(\<exists>e. payload_text rt (Some r) = Inl e) \<longleftrightarrow>
     payload r = JUndefined \<or>
     (typeof (payload r) = ''object'' \<and> (\<exists>e. JSON_stringify rt (payload r) 2 = Inl e))"
  by (cases "payload r") (simp_all add: payload_text_def)

lemma resume_fulfilled:
  "payload_text rt response = Inr t \<Longrightarrow>
   handleSendMessage_resume rt props (Inr response) date s =
     (None,
      s\<lparr>messages := messages s @
           [\<lparr>text = ''Here's what I suggest for the \"'' @ fieldName props @ ''\" field:'',
             isUser = False, timestamp = date 0\<rparr>,
            \<lparr>text = t, isUser = False, timestamp = date 1\<rparr>,
            \<lparr>text = ''Would you like to apply this value to the field? Just click on the message.'',
             isUser = False, timestamp = date 2\<rparr>],
        isLoading := False\<rparr>)"
  by (simp add: handleSendMessage_resume_def Let_def finally_block_def append_message_def)

lemma resume_render_throws:
  "payload_text rt response = Inl e \<Longrightarrow>
   handleSendMessage_resume rt props (Inr response) date s =
     (None,
      s\<lparr>messages := messages s @
           [\<lparr>text = ''Here's what I suggest for the \"'' @ fieldName props @ ''\" field:'',
             isUser = False, timestamp = date 0\<rparr>,
            \<lparr>text = ''Sorry, I encountered an error: '' @
                     (case e of Error m \<Rightarrow> m | NonError v \<Rightarrow> ''Unknown error''),
             isUser = False, timestamp = date 1\<rparr>],
        isLoading := False\<rparr>)"
  by (simp add: handleSendMessage_resume_def Let_def catch_block_def finally_block_def
      append_message_def)

lemma resume_cases:
  obtains (rejected) e where "settled = Inl e"
  | (fulfilled) response t where "settled = Inr response" "payload_text rt response = Inr t"
  | (render_throws) response e where "settled = Inr response" "payload_text rt response = Inl e"
proof (cases settled)
  case (Inl e)
  then show ?thesis by (rule rejected)
next
  case (Inr response)
  then show ?thesis
    by (cases "payload_text rt response") (auto intro: fulfilled render_throws)
qed

lemma resume_prefix:
  "prefix (messages s) (messages (snd (handleSendMessage_resume rt props settled date s)))"
  by (rule resume_cases [where settled = settled and rt = rt])
    (simp_all add: resume_rejected resume_fulfilled resume_render_throws)

lemma resume_frame:
  "fst (handleSendMessage_resume rt props settled date s) = None \<and>
   isLoading (snd (handleSendMessage_resume rt props settled date s)) = False \<and>
   userInput (snd (handleSendMessage_resume rt props settled date s)) = userInput s \<and>
   anchorEl (snd (handleSendMessage_resume rt props settled date s)) = anchorEl s"
  by (rule resume_cases [where settled = settled and rt = rt])
    (simp_all add: resume_rejected resume_fulfilled resume_render_throws)

lemma handleSendMessage_prefix:
  "prefix (messages s) (messages (fst (handleSendMessage props now s)))"
  by (cases "trim (userInput s) = []")
    (simp_all add: handleSendMessage_blank handleSendMessage_nonblank)

lemma step_prefix: "prefix (messages s) (messages (step rt props e s))"
proof (cases e)
  case (OpenChat el now)
  then show ?thesis by (simp add: messages_handleOpenChat)
next
  case CloseChat
  then show ?thesis by (simp add: messages_handleCloseChat)
next
  case (InputChange v)
  then show ?thesis by (simp add: messages_handleInputChange)
next
  case (KeyDown key shiftKey now)
  then show ?thesis by (simp add: handleKeyPress_def handleSendMessage_prefix)
next
  case (SendClick now)
  then show ?thesis by (simp add: sendButton_onClick_def handleSendMessage_prefix)
next
  case (MessageClick m)
  then show ?thesis by simp
next
  case (Settled settled date)
  then show ?thesis by (simp add: resume_prefix)
qed

lemma run_prefix: "prefix (messages s) (messages (run rt props es s))"
proof (induction es arbitrary: s)
  case Nil
  then show ?case by simp
next
  case (Cons e es)
  have "prefix (messages s) (messages (step rt props e s))" by (rule step_prefix)
  also have "prefix \<dots> (messages (run rt props es (step rt props e s)))" by (rule Cons.IH)
  finally show ?case by simp
qed

subsection \<open>The mock responses\<close>












subsection \<open>Settlements\<close>

text \<open>
  When rendering the payload throws, because the payload is \<open>undefined\<close> or because
  \<open>JSON.stringify\<close> throws on it, the lead-in is already appended and the \<open>catch\<close> block
  adds one error message after it: an object that holds a bigint is an example.
\<close>

lemma settle_handler:
  "settle props (OnSendMessage t promise) random =
     (case promise of Inl reason \<Rightarrow> Inl reason | Inr response \<Rightarrow> Inr (Some response))"
  by (simp add: settle_def)

lemma run_between:
  "\<exists>between. messages (run rt props es s) = messages s @ between"
  using run_prefix [of s rt props es] by (auto simp: prefix_def)

lemma render_throws_two_messages:
  assumes "payload r = JUndefined \<or>
     (typeof (payload r) = ''object'' \<and> JSON_stringify rt (payload r) 2 = Inl e)"
  shows "\<exists>e'. handleSendMessage_resume rt props (Inr (Some r)) date s =
     (None,
      s\<lparr>messages := messages s @
           [\<lparr>text = ''Here's what I suggest for the \"'' @ fieldName props @ ''\" field:'',
             isUser = False, timestamp = date 0\<rparr>,
            \<lparr>text = ''Sorry, I encountered an error: '' @
                     (case e' of Error m \<Rightarrow> m | NonError v \<Rightarrow> ''Unknown error''),
             isUser = False, timestamp = date 1\<rparr>],
        isLoading := False\<rparr>)"
proof -
  from assms have "\<exists>e'. payload_text rt (Some r) = Inl e'"
    unfolding payload_text_throws_iff by blast
  then obtain e' where "payload_text rt (Some r) = Inl e'" ..
  then show ?thesis by (blast dest: resume_render_throws)
qed

lemma bigint_payload_two_messages:
  "handleSendMessage_resume example_runtime
     (custom_props (\<lambda>t. Inr \<lparr>payload = JObject [(''id'', JBigInt 1)]\<rparr>))
     (settle (custom_props (\<lambda>t. Inr \<lparr>payload = JObject [(''id'', JBigInt 1)]\<rparr>))
        (OnSendMessage ''help me'' (Inr \<lparr>payload = JObject [(''id'', JBigInt 1)]\<rparr>)) 0)
     (\<lambda>k. 3 + int k)
     (chat [welcome_custom, \<lparr>text = ''help me'', isUser = True, timestamp = 2\<rparr>] [] True) =
     (None,
      chat [welcome_custom,
            \<lparr>text = ''help me'', isUser = True, timestamp = 2\<rparr>,
            \<lparr>text = ''Here's what I suggest for the \"Custom Field\" field:'', isUser = False,
             timestamp = 3\<rparr>,
            \<lparr>text = ''Sorry, I encountered an error: Do not know how to serialize a BigInt'',
             isUser = False, timestamp = 4\<rparr>] [] False)"
  by (simp add: handleSendMessage_resume_def settle_def Let_def
      append_message_def catch_block_def finally_block_def payload_text_def chat_def
      custom_props_def example_runtime_def)

subsection \<open>The send button and the Enter key\<close>

text \<open>
  The send button is disabled while a dispatch is in flight; \<open>handleSendMessage\<close> itself
  never reads \<open>isLoading\<close>, so the Enter key submits whatever the flag says.
\<close>

lemma sendButton_rejects_while_busy:
  "isLoading s \<Longrightarrow> sendButton_onClick props now s = (s, None)"
  by (simp add: sendButton_onClick_def sendButton_disabled_def)

lemma enter_submits_whatever_isLoading:
  "trim (userInput s) \<noteq> [] \<Longrightarrow>
   handleKeyPress props ''Enter'' False now s =
     (s\<lparr>messages := messages s @ [\<lparr>text = trim (userInput s), isUser = True, timestamp = now\<rparr>],
        userInput := [], isLoading := True\<rparr>,
      Some (case onSendMessage props of
              Some handler \<Rightarrow> OnSendMessage (trim (userInput s)) (handler (trim (userInput s)))
            | None \<Rightarrow> SetTimeout 1000))"
  by (simp add: handleKeyPress_def handleSendMessage_nonblank)

subsection \<open>Reopening\<close>

lemma reopen_keeps_messages:
  assumes "\<forall>e\<in>set es. e = CloseChat \<or> (\<exists>el now. e = OpenChat el now)"
    and "messages s \<noteq> []"
  shows "messages (run rt props es s) = messages s"
  using assms
proof (induction es arbitrary: s)
  case Nil
  then show ?case by simp
next
  case (Cons e es)
  from Cons.prems have "e = CloseChat \<or> (\<exists>el now. e = OpenChat el now)" by simp
  with Cons.prems(2) have same: "messages (step rt props e s) = messages s"
    by (auto simp: messages_handleOpenChat messages_handleCloseChat)
  with Cons.prems have "messages (run rt props es (step rt props e s)) = messages (step rt props e s)"
    by (intro Cons.IH) simp_all
  with same show ?case by simp
qed

section \<open>The claims\<close>

text \<open>
  Claim C1: at most one dispatch is in flight; in every state whose busy flag is true, a
  further submit of non-blank input is rejected (no user message appended, the handler
  not invoked again). The code does not do this on the Enter key. The panel is opened,
  \<open>first\<close> is typed and sent with the button, and \<open>second\<close> is typed while the dispatch
  is pending: the send button, which is disabled, does nothing, and the Enter key appends
  the user message and calls the handler again.
\<close>

theorem enter_while_busy_dispatches_again:
  "run example_runtime (custom_props (\<lambda>t. Inr \<lparr>payload = JString t\<rparr>))
     [OpenChat 0 1, InputChange ''first'', SendClick 5, InputChange ''second''] initial_state =
     chat [welcome_custom, \<lparr>text = ''first'', isUser = True, timestamp = 5\<rparr>] ''second'' True \<and>
   sendButton_onClick (custom_props (\<lambda>t. Inr \<lparr>payload = JString t\<rparr>)) 7
     (chat [welcome_custom, \<lparr>text = ''first'', isUser = True, timestamp = 5\<rparr>] ''second'' True) =
     (chat [welcome_custom, \<lparr>text = ''first'', isUser = True, timestamp = 5\<rparr>] ''second'' True,
      None) \<and>
   handleKeyPress (custom_props (\<lambda>t. Inr \<lparr>payload = JString t\<rparr>)) ''Enter'' False 7
     (chat [welcome_custom, \<lparr>text = ''first'', isUser = True, timestamp = 5\<rparr>] ''second'' True) =
   (chat [welcome_custom,
          \<lparr>text = ''first'', isUser = True, timestamp = 5\<rparr>,
          \<lparr>text = ''second'', isUser = True, timestamp = 7\<rparr>] [] True,
    Some (OnSendMessage ''second'' (Inr \<lparr>payload = JString ''second''\<rparr>)))"
  by (simp add: handleKeyPress_def sendButton_onClick_def sendButton_disabled_def
      handleSendMessage_def handleOpenChat_def handleInputChange_def Let_def append_message_def
      or_else_def truthy_string_def initial_state_def welcome_custom_def
      chat_def custom_props_def trim_def isWhiteSpace_def)

text \<open>
  Claim C2, as the code has it: for an input that is not blank, submit appends the user
  message (the trimmed text, marked as the user's) at once, with the dispatch still
  pending. When what is awaited then yields a response (the handler fulfils, or the mock
  responds) whose payload can be rendered, which is a payload that is not \<open>undefined\<close>
  and on which, when its \<open>typeof\<close> is \<open>"object"\<close>, \<open>JSON.stringify\<close> with the indent 2
  returns a text and does not throw, the continuation appends exactly three assistant
  messages to the messages of the state it finds: the lead-in naming the field, the
  payload (a string as it is, a number, a bigint or a boolean in its string form, and
  \<open>null\<close>, an array or an object as the text \<open>JSON.stringify\<close> returned), and the prompt
  to click. Whatever happens between the submit and the settlement, the user message
  comes before the three.
\<close>

theorem submit_appends_user_message_then_three_replies:
  assumes "trim (userInput s) \<noteq> []"
  shows "messages (fst (handleSendMessage props now s)) =
           messages s @ [\<lparr>text = trim (userInput s), isUser = True, timestamp = now\<rparr>] \<and>
         (\<exists>a. snd (handleSendMessage props now s) = Some a) \<and>
         (snd (handleSendMessage props now s) = Some a \<and>
          settle props a random = Inr (Some r) \<and>
          payload r \<noteq> JUndefined \<and>
          (typeof (payload r) = ''object'' \<longrightarrow> JSON_stringify rt (payload r) 2 = Inr json) \<longrightarrow>
            handleSendMessage_resume rt props (settle props a random) date s' =
              (None,
               s'\<lparr>messages := messages s' @
                    [\<lparr>text = ''Here's what I suggest for the \"'' @ fieldName props @ ''\" field:'',
                      isUser = False, timestamp = date 0\<rparr>,
                     \<lparr>text = (case payload r of
                                JString u \<Rightarrow> u
                              | JNumber n \<Rightarrow> Number_toString rt n
                              | JBigInt n \<Rightarrow> BigInt_toString rt n
                              | JBoolean b \<Rightarrow> (if b then ''true'' else ''false'')
                              | _ \<Rightarrow> json),
                      isUser = False, timestamp = date 1\<rparr>,
                     \<lparr>text = ''Would you like to apply this value to the field? Just click on the message.'',
                      isUser = False, timestamp = date 2\<rparr>],
                  isLoading := False\<rparr>) \<and>
            (\<exists>between.
               messages (snd (handleSendMessage_resume rt props (settle props a random) date
                           (run rt props es (fst (handleSendMessage props now s))))) =
                 messages s @ [\<lparr>text = trim (userInput s), isUser = True, timestamp = now\<rparr>] @
                 between @
                 [\<lparr>text = ''Here's what I suggest for the \"'' @ fieldName props @ ''\" field:'',
                   isUser = False, timestamp = date 0\<rparr>,
                  \<lparr>text = (case payload r of
                             JString u \<Rightarrow> u
                           | JNumber n \<Rightarrow> Number_toString rt n
                           | JBigInt n \<Rightarrow> BigInt_toString rt n
                           | JBoolean b \<Rightarrow> (if b then ''true'' else ''false'')
                           | _ \<Rightarrow> json),
                   isUser = False, timestamp = date 1\<rparr>,
                  \<lparr>text = ''Would you like to apply this value to the field? Just click on the message.'',
                   isUser = False, timestamp = date 2\<rparr>]))"
proof -
  let ?s1 = "fst (handleSendMessage props now s)"
  let ?user = "\<lparr>text = trim (userInput s), isUser = True, timestamp = now\<rparr>"
  have sent: "messages ?s1 = messages s @ [?user]" "\<exists>a. snd (handleSendMessage props now s) = Some a"
    using assms by (simp_all add: handleSendMessage_nonblank)
  have replies:
    "handleSendMessage_resume rt props (settle props a random) date s' =
              (None,
               s'\<lparr>messages := messages s' @
                    [\<lparr>text = ''Here's what I suggest for the \"'' @ fieldName props @ ''\" field:'',
                      isUser = False, timestamp = date 0\<rparr>,
                     \<lparr>text = (case payload r of
                                JString u \<Rightarrow> u
                              | JNumber n \<Rightarrow> Number_toString rt n
                              | JBigInt n \<Rightarrow> BigInt_toString rt n
                              | JBoolean b \<Rightarrow> (if b then ''true'' else ''false'')
                              | _ \<Rightarrow> json),
                      isUser = False, timestamp = date 1\<rparr>,
                     \<lparr>text = ''Would you like to apply this value to the field? Just click on the message.'',
                      isUser = False, timestamp = date 2\<rparr>],
                  isLoading := False\<rparr>)"
    if fulfilled: "settle props a random = Inr (Some r)"
      and defined: "payload r \<noteq> JUndefined"
      and serialised: "typeof (payload r) = ''object'' \<longrightarrow> JSON_stringify rt (payload r) 2 = Inr json"
    for s'
    unfolding fulfilled
    by (rule resume_fulfilled [OF payload_text_rendered [OF defined serialised]])
  show ?thesis
  proof (intro conjI impI)
    show "messages ?s1 = messages s @ [?user]" by (rule sent(1))
    show "\<exists>a. snd (handleSendMessage props now s) = Some a" by (rule sent(2))
  next
    assume "snd (handleSendMessage props now s) = Some a \<and>
      settle props a random = Inr (Some r) \<and> payload r \<noteq> JUndefined \<and>
      (typeof (payload r) = ''object'' \<longrightarrow> JSON_stringify rt (payload r) 2 = Inr json)"
    then have ok: "settle props a random = Inr (Some r)" "payload r \<noteq> JUndefined"
      "typeof (payload r) = ''object'' \<longrightarrow> JSON_stringify rt (payload r) 2 = Inr json"
      by blast+
    show "handleSendMessage_resume rt props (settle props a random) date s' =
              (None,
               s'\<lparr>messages := messages s' @
                    [\<lparr>text = ''Here's what I suggest for the \"'' @ fieldName props @ ''\" field:'',
                      isUser = False, timestamp = date 0\<rparr>,
                     \<lparr>text = (case payload r of
                                JString u \<Rightarrow> u
                              | JNumber n \<Rightarrow> Number_toString rt n
                              | JBigInt n \<Rightarrow> BigInt_toString rt n
                              | JBoolean b \<Rightarrow> (if b then ''true'' else ''false'')
                              | _ \<Rightarrow> json),
                      isUser = False, timestamp = date 1\<rparr>,
                     \<lparr>text = ''Would you like to apply this value to the field? Just click on the message.'',
                      isUser = False, timestamp = date 2\<rparr>],
                  isLoading := False\<rparr>)"
      by (rule replies [OF ok])
    obtain between where "messages (run rt props es ?s1) = messages ?s1 @ between"
      using run_between by blast
    with sent(1) have "messages (run rt props es ?s1) = messages s @ [?user] @ between"
      by simp
    then have "messages (snd (handleSendMessage_resume rt props (settle props a random) date
                           (run rt props es ?s1))) =
                 messages s @ [?user] @ between @
                 [\<lparr>text = ''Here's what I suggest for the \"'' @ fieldName props @ ''\" field:'',
                   isUser = False, timestamp = date 0\<rparr>,
                  \<lparr>text = (case payload r of
                             JString u \<Rightarrow> u
                           | JNumber n \<Rightarrow> Number_toString rt n
                           | JBigInt n \<Rightarrow> BigInt_toString rt n
                           | JBoolean b \<Rightarrow> (if b then ''true'' else ''false'')
                           | _ \<Rightarrow> json),
                   isUser = False, timestamp = date 1\<rparr>,
                  \<lparr>text = ''Would you like to apply this value to the field? Just click on the message.'',
                   isUser = False, timestamp = date 2\<rparr>]"
      by (simp add: replies [OF ok])
    then show "\<exists>between.
               messages (snd (handleSendMessage_resume rt props (settle props a random) date
                           (run rt props es ?s1))) =
                 messages s @ [?user] @ between @
                 [\<lparr>text = ''Here's what I suggest for the \"'' @ fieldName props @ ''\" field:'',
                   isUser = False, timestamp = date 0\<rparr>,
                  \<lparr>text = (case payload r of
                             JString u \<Rightarrow> u
                           | JNumber n \<Rightarrow> Number_toString rt n
                           | JBigInt n \<Rightarrow> BigInt_toString rt n
                           | JBoolean b \<Rightarrow> (if b then ''true'' else ''false'')
                           | _ \<Rightarrow> json),
                   isUser = False, timestamp = date 1\<rparr>,
                  \<lparr>text = ''Would you like to apply this value to the field? Just click on the message.'',
                   isUser = False, timestamp = date 2\<rparr>]"
      by (rule exI [where x = between])
  qed
qed

text \<open>
  The theorem at work: the input \<open>help me\<close> with blanks around it, a handler that fulfils
  with the payload \<open>null\<close>, and the continuation in the state the submit left.
\<close>

theorem submit_appends_user_message_then_three_replies_witness:
  "trim (userInput (chat [welcome_custom] ''  help me '' False)) \<noteq> [] \<and>
   handleSendMessage (custom_props (\<lambda>t. Inr \<lparr>payload = JNull\<rparr>)) 2
       (chat [welcome_custom] ''  help me '' False) =
     (chat [welcome_custom, \<lparr>text = ''help me'', isUser = True, timestamp = 2\<rparr>] [] True,
      Some (OnSendMessage ''help me'' (Inr \<lparr>payload = JNull\<rparr>))) \<and>
   handleSendMessage_resume example_runtime (custom_props (\<lambda>t. Inr \<lparr>payload = JNull\<rparr>))
     (settle (custom_props (\<lambda>t. Inr \<lparr>payload = JNull\<rparr>))
        (OnSendMessage ''help me'' (Inr \<lparr>payload = JNull\<rparr>)) 0)
     (\<lambda>k. 3 + int k)
     (chat [welcome_custom, \<lparr>text = ''help me'', isUser = True, timestamp = 2\<rparr>] [] True) =
     (None,
      chat [welcome_custom,
            \<lparr>text = ''help me'', isUser = True, timestamp = 2\<rparr>,
            \<lparr>text = ''Here's what I suggest for the \"Custom Field\" field:'', isUser = False,
             timestamp = 3\<rparr>,
            \<lparr>text = ''null'', isUser = False, timestamp = 4\<rparr>,
            \<lparr>text = ''Would you like to apply this value to the field? Just click on the message.'',
             isUser = False, timestamp = 5\<rparr>] [] False)"
proof -
  let ?props = "custom_props (\<lambda>t. Inr \<lparr>payload = JNull\<rparr>)"
  let ?s = "chat [welcome_custom] ''  help me '' False"
  let ?s1 = "chat [welcome_custom, \<lparr>text = ''help me'', isUser = True, timestamp = 2\<rparr>] [] True"
  let ?a = "OnSendMessage ''help me'' (Inr \<lparr>payload = JNull\<rparr>)"
  have nonblank: "trim (userInput ?s) \<noteq> []"
    by (simp add: chat_def trim_def isWhiteSpace_def)
  have sent: "handleSendMessage ?props 2 ?s = (?s1, Some ?a)"
    by (simp add: handleSendMessage_def Let_def append_message_def chat_def custom_props_def
        trim_def isWhiteSpace_def)
  have fulfilled: "settle ?props ?a 0 = Inr (Some \<lparr>payload = JNull\<rparr>)"
    by (simp add: settle_def)
  have serialised: "JSON_stringify example_runtime JNull 2 = Inr ''null''"
    by (simp add: example_runtime_def)
  from submit_appends_user_message_then_three_replies [OF nonblank, of ?props 2 ?a 0
      "\<lparr>payload = JNull\<rparr>" example_runtime "''null''" "\<lambda>k. 3 + int k" ?s1 "[]"]
    sent fulfilled serialised
  have "handleSendMessage_resume example_runtime ?props (settle ?props ?a 0)
     (\<lambda>k. 3 + int k) ?s1 =
     (None,
      chat [welcome_custom,
            \<lparr>text = ''help me'', isUser = True, timestamp = 2\<rparr>,
            \<lparr>text = ''Here's what I suggest for the \"Custom Field\" field:'', isUser = False,
             timestamp = 3\<rparr>,
            \<lparr>text = ''null'', isUser = False, timestamp = 4\<rparr>,
            \<lparr>text = ''Would you like to apply this value to the field? Just click on the message.'',
             isUser = False, timestamp = 5\<rparr>] [] False)"
    by (simp add: chat_def custom_props_def trim_def isWhiteSpace_def)
  with nonblank sent show ?thesis by blast
qed

text \<open>
  Claim C2 as it is stated fails where the handler fulfils with the payload
  \<open>undefined\<close>: \<open>typeof\<close> is not \<open>"object"\<close>, \<open>toString\<close> is read from \<open>undefined\<close> and
  throws after the lead-in has been appended, and the \<open>catch\<close> block adds the error
  message. The handler succeeded, and two assistant messages follow, not three.
\<close>

theorem undefined_payload_counterexample:
  "handleSendMessage (custom_props (\<lambda>t. Inr \<lparr>payload = JUndefined\<rparr>)) 2
     (chat [welcome_custom] ''help me'' False) =
     (chat [welcome_custom, \<lparr>text = ''help me'', isUser = True, timestamp = 2\<rparr>] [] True,
      Some (OnSendMessage ''help me'' (Inr \<lparr>payload = JUndefined\<rparr>))) \<and>
   handleSendMessage_resume example_runtime (custom_props (\<lambda>t. Inr \<lparr>payload = JUndefined\<rparr>))
     (settle (custom_props (\<lambda>t. Inr \<lparr>payload = JUndefined\<rparr>))
        (OnSendMessage ''help me'' (Inr \<lparr>payload = JUndefined\<rparr>)) 0)
     (\<lambda>k. 3 + int k)
     (chat [welcome_custom, \<lparr>text = ''help me'', isUser = True, timestamp = 2\<rparr>] [] True) =
     (None,
      chat [welcome_custom,
            \<lparr>text = ''help me'', isUser = True, timestamp = 2\<rparr>,
            \<lparr>text = ''Here's what I suggest for the \"Custom Field\" field:'', isUser = False,
             timestamp = 3\<rparr>,
            \<lparr>text = ''Sorry, I encountered an error: Cannot read properties of undefined (reading 'toString')'',
             isUser = False, timestamp = 4\<rparr>] [] False)"
  by (simp add: handleSendMessage_def handleSendMessage_resume_def settle_def Let_def
      append_message_def catch_block_def finally_block_def payload_text_def chat_def
      custom_props_def example_runtime_def trim_def isWhiteSpace_def)

text \<open>
  Claim C3, as the code has it: when the handler, called with the trimmed text, rejects
  or throws, the \<open>await\<close> throws the reason, the \<open>catch\<close> block turns it into exactly one
  assistant message, nothing leaves \<open>handleSendMessage\<close>, and the busy flag is cleared.
  The text of the message ends with the \<open>message\<close> of the reason when the reason is an
  instance of \<open>Error\<close>, whatever that message is, and with \<open>Unknown error\<close> when the
  reason is any other value, whatever it holds.
\<close>

theorem handler_failure_is_reported:
  assumes "trim (userInput s) \<noteq> []"
    and "onSendMessage props = Some handler"
    and "handler (trim (userInput s)) = Inl e"
  shows "snd (handleSendMessage props now s) =
           Some (OnSendMessage (trim (userInput s)) (Inl e)) \<and>
         settle props (OnSendMessage (trim (userInput s)) (Inl e)) random = Inl e \<and>
         handleSendMessage_resume rt props
             (settle props (OnSendMessage (trim (userInput s)) (Inl e)) random) date s' =
           (None,
            s'\<lparr>messages := messages s' @
                 [\<lparr>text = ''Sorry, I encountered an error: '' @
                           (case e of Error m \<Rightarrow> m | NonError v \<Rightarrow> ''Unknown error''),
                   isUser = False, timestamp = date 0\<rparr>],
               isLoading := False\<rparr>) \<and>
         (\<exists>between.
            messages (snd (handleSendMessage_resume rt props
                (settle props (OnSendMessage (trim (userInput s)) (Inl e)) random) date
                (run rt props es (fst (handleSendMessage props now s))))) =
              messages s @ [\<lparr>text = trim (userInput s), isUser = True, timestamp = now\<rparr>] @
              between @
              [\<lparr>text = ''Sorry, I encountered an error: '' @
                        (case e of Error m \<Rightarrow> m | NonError v \<Rightarrow> ''Unknown error''),
                isUser = False, timestamp = date 0\<rparr>])"
proof -
  let ?s1 = "fst (handleSendMessage props now s)"
  let ?user = "\<lparr>text = trim (userInput s), isUser = True, timestamp = now\<rparr>"
  have sent: "messages ?s1 = messages s @ [?user]"
    "snd (handleSendMessage props now s) = Some (OnSendMessage (trim (userInput s)) (Inl e))"
    using assms by (simp_all add: handleSendMessage_nonblank)
  have rejected: "settle props (OnSendMessage (trim (userInput s)) (Inl e)) random = Inl e"
    by (simp add: settle_def)
  obtain between where "messages (run rt props es ?s1) = messages ?s1 @ between"
    using run_between by blast
  with sent(1) have "messages (run rt props es ?s1) = messages s @ [?user] @ between"
    by simp
  then have "messages (snd (handleSendMessage_resume rt props
                (settle props (OnSendMessage (trim (userInput s)) (Inl e)) random) date
                (run rt props es ?s1))) =
              messages s @ [?user] @ between @
              [\<lparr>text = ''Sorry, I encountered an error: '' @
                        (case e of Error m \<Rightarrow> m | NonError v \<Rightarrow> ''Unknown error''),
                isUser = False, timestamp = date 0\<rparr>]"
    by (simp add: rejected resume_rejected)
  then have "\<exists>between.
            messages (snd (handleSendMessage_resume rt props
                (settle props (OnSendMessage (trim (userInput s)) (Inl e)) random) date
                (run rt props es ?s1))) =
              messages s @ [?user] @ between @
              [\<lparr>text = ''Sorry, I encountered an error: '' @
                        (case e of Error m \<Rightarrow> m | NonError v \<Rightarrow> ''Unknown error''),
                isUser = False, timestamp = date 0\<rparr>]"
    by (rule exI [where x = between])
  with sent(2) rejected show ?thesis
    by (simp only: resume_rejected simp_thms)
qed

text \<open>
  A handler that rejects with the error \<open>Network down\<close>, and the continuation in the
  state the submit left.
\<close>

theorem handler_failure_is_reported_witness:
  "trim (userInput (chat [welcome_custom] ''help me'' False)) \<noteq> [] \<and>
   onSendMessage (custom_props (\<lambda>t. Inl (Error ''Network down''))) =
     Some (\<lambda>t. Inl (Error ''Network down'')) \<and>
   handleSendMessage (custom_props (\<lambda>t. Inl (Error ''Network down''))) 2
       (chat [welcome_custom] ''help me'' False) =
     (chat [welcome_custom, \<lparr>text = ''help me'', isUser = True, timestamp = 2\<rparr>] [] True,
      Some (OnSendMessage ''help me'' (Inl (Error ''Network down'')))) \<and>
   handleSendMessage_resume example_runtime (custom_props (\<lambda>t. Inl (Error ''Network down'')))
     (settle (custom_props (\<lambda>t. Inl (Error ''Network down'')))
        (OnSendMessage ''help me'' (Inl (Error ''Network down''))) 0)
     (\<lambda>k. 3 + int k)
     (chat [welcome_custom, \<lparr>text = ''help me'', isUser = True, timestamp = 2\<rparr>] [] True) =
     (None,
      chat [welcome_custom,
            \<lparr>text = ''help me'', isUser = True, timestamp = 2\<rparr>,
            \<lparr>text = ''Sorry, I encountered an error: Network down'', isUser = False,
             timestamp = 3\<rparr>] [] False)"
proof -
  let ?props = "custom_props (\<lambda>t. Inl (Error ''Network down''))"
  let ?s = "chat [welcome_custom] ''help me'' False"
  let ?s1 = "chat [welcome_custom, \<lparr>text = ''help me'', isUser = True, timestamp = 2\<rparr>] [] True"
  have text_typed: "trim (userInput ?s) = ''help me''"
    by (simp add: chat_def trim_def isWhiteSpace_def)
  then have nonblank: "trim (userInput ?s) \<noteq> []"
    by simp
  have configured: "onSendMessage ?props = Some (\<lambda>t. Inl (Error ''Network down''))"
    by (simp add: custom_props_def)
  have rejects: "(\<lambda>t. Inl (Error ''Network down'')) (trim (userInput ?s)) = Inl (Error ''Network down'')"
    by simp
  have sent: "handleSendMessage ?props 2 ?s =
      (?s1, Some (OnSendMessage ''help me'' (Inl (Error ''Network down''))))"
    by (simp add: handleSendMessage_def Let_def append_message_def chat_def custom_props_def
        trim_def isWhiteSpace_def)
  from handler_failure_is_reported [OF nonblank configured rejects, of 2 0 example_runtime
      "\<lambda>k. 3 + int k" ?s1 "[]"]
  have "handleSendMessage_resume example_runtime ?props
     (settle ?props (OnSendMessage (trim (userInput ?s)) (Inl (Error ''Network down''))) 0)
     (\<lambda>k. 3 + int k) ?s1 =
     (None,
      ?s1\<lparr>messages := messages ?s1 @
           [\<lparr>text = ''Sorry, I encountered an error: '' @
                     (case Error ''Network down'' of
                        Error m \<Rightarrow> m | NonError v \<Rightarrow> ''Unknown error''),
             isUser = False, timestamp = 3 + int 0\<rparr>],
         isLoading := False\<rparr>)"
    by blast
  then have "handleSendMessage_resume example_runtime ?props
     (settle ?props (OnSendMessage ''help me'' (Inl (Error ''Network down''))) 0)
     (\<lambda>k. 3 + int k) ?s1 =
     (None,
      chat [welcome_custom,
            \<lparr>text = ''help me'', isUser = True, timestamp = 2\<rparr>,
            \<lparr>text = ''Sorry, I encountered an error: Network down'', isUser = False,
             timestamp = 3\<rparr>] [] False)"
    by (simp add: chat_def trim_def isWhiteSpace_def)
  with nonblank configured sent show ?thesis by blast
qed

text \<open>
  Claim C3 as it is stated fails in both directions. A handler that rejects with
  \<open>new Error()\<close>, a failure that carries no description, gets no fallback: the text ends
  after the colon. A handler that rejects with the string \<open>Network down\<close>, a failure
  that carries a description, has it replaced by \<open>Unknown error\<close>.
\<close>

theorem failure_description_counterexample:
  "handleSendMessage (custom_props (\<lambda>t. Inl (Error []))) 2
       (chat [welcome_custom] ''help me'' False) =
     (chat [welcome_custom, \<lparr>text = ''help me'', isUser = True, timestamp = 2\<rparr>] [] True,
      Some (OnSendMessage ''help me'' (Inl (Error [])))) \<and>
   handleSendMessage_resume example_runtime (custom_props (\<lambda>t. Inl (Error [])))
     (settle (custom_props (\<lambda>t. Inl (Error [])))
        (OnSendMessage ''help me'' (Inl (Error []))) 0)
     (\<lambda>k. 3 + int k)
     (chat [welcome_custom, \<lparr>text = ''help me'', isUser = True, timestamp = 2\<rparr>] [] True) =
     (None,
      chat [welcome_custom,
            \<lparr>text = ''help me'', isUser = True, timestamp = 2\<rparr>,
            \<lparr>text = ''Sorry, I encountered an error: '', isUser = False,
             timestamp = 3\<rparr>] [] False) \<and>
   handleSendMessage (custom_props (\<lambda>t. Inl (NonError (JString ''Network down'')))) 2
       (chat [welcome_custom] ''help me'' False) =
     (chat [welcome_custom, \<lparr>text = ''help me'', isUser = True, timestamp = 2\<rparr>] [] True,
      Some (OnSendMessage ''help me'' (Inl (NonError (JString ''Network down''))))) \<and>
   handleSendMessage_resume example_runtime
     (custom_props (\<lambda>t. Inl (NonError (JString ''Network down''))))
     (settle (custom_props (\<lambda>t. Inl (NonError (JString ''Network down''))))
        (OnSendMessage ''help me'' (Inl (NonError (JString ''Network down'')))) 0)
     (\<lambda>k. 3 + int k)
     (chat [welcome_custom, \<lparr>text = ''help me'', isUser = True, timestamp = 2\<rparr>] [] True) =
     (None,
      chat [welcome_custom,
            \<lparr>text = ''help me'', isUser = True, timestamp = 2\<rparr>,
            \<lparr>text = ''Sorry, I encountered an error: Unknown error'', isUser = False,
             timestamp = 3\<rparr>] [] False)"
  by (simp add: handleSendMessage_def handleSendMessage_resume_def settle_def Let_def
      append_message_def catch_block_def finally_block_def chat_def
      custom_props_def trim_def isWhiteSpace_def)

text \<open>
  Claim C4: a submit of an input that is empty after trimming changes nothing and
  dispatches nothing, whether it comes from \<open>handleSendMessage\<close> itself, from the Enter
  key or from the send button. (By \<open>trim_eq_Nil_iff\<close> these are the inputs that hold
  white space only.)
\<close>

theorem blank_input_is_noop:
  assumes "trim (userInput s) = []"
  shows "handleSendMessage props now s = (s, None) \<and>
         handleKeyPress props key shiftKey now s = (s, None) \<and>
         sendButton_onClick props now s = (s, None)"
  using assms
  by (simp add: handleSendMessage_blank handleKeyPress_def sendButton_onClick_def)

text \<open>An input of a blank, a tab and a blank.\<close>

theorem blank_input_is_noop_witness:
  "trim (userInput (chat [] [CHR 0x20, CHR 0x09, CHR 0x20] False)) = [] \<and>
   handleSendMessage schema_props 3 (chat [] [CHR 0x20, CHR 0x09, CHR 0x20] False) =
     (chat [] [CHR 0x20, CHR 0x09, CHR 0x20] False, None) \<and>
   handleKeyPress schema_props ''Enter'' False 3 (chat [] [CHR 0x20, CHR 0x09, CHR 0x20] False) =
     (chat [] [CHR 0x20, CHR 0x09, CHR 0x20] False, None) \<and>
   sendButton_onClick schema_props 3 (chat [] [CHR 0x20, CHR 0x09, CHR 0x20] False) =
     (chat [] [CHR 0x20, CHR 0x09, CHR 0x20] False, None)"
proof -
  have blank: "trim (userInput (chat [] [CHR 0x20, CHR 0x09, CHR 0x20] False)) = []"
    by (simp add: chat_def trim_def isWhiteSpace_def)
  show ?thesis
    using blank blank_input_is_noop [OF blank, of schema_props 3 "''Enter''" False]
    by simp
qed

text \<open>
  Claim C5, as the code has it: opening with no messages inserts exactly one welcome
  message, whose text is the \<open>welcomeMessage\<close> prop when that is a string that is not
  empty, and else the default template around the field name; opening with messages
  present inserts nothing; and after an open, no sequence of closes and opens changes the
  messages.
\<close>

theorem welcome_inserted_once:
  assumes "\<forall>e\<in>set es. e = CloseChat \<or> (\<exists>el' now'. e = OpenChat el' now')"
  shows "(messages s = [] \<longrightarrow>
            messages (handleOpenChat props el now s) =
              [\<lparr>text = (case welcomeMessage props of
                          None \<Rightarrow> defaultWelcomeMessage props
                        | Some w \<Rightarrow> if w = [] then defaultWelcomeMessage props else w),
                isUser = False, timestamp = now\<rparr>]) \<and>
         (messages s \<noteq> [] \<longrightarrow> messages (handleOpenChat props el now s) = messages s) \<and>
         messages (run rt props es (handleOpenChat props el now s)) =
           messages (handleOpenChat props el now s) \<and>
         defaultWelcomeMessage props =
           ''Hi there! I'm AiConfigHelper. How can I help you configure the \"''
             @ fieldName props @ ''\" field?''"
proof -
  have "messages (handleOpenChat props el now s) \<noteq> []"
    by (simp add: messages_handleOpenChat)
  with assms have "messages (run rt props es (handleOpenChat props el now s)) =
      messages (handleOpenChat props el now s)"
    by (rule reopen_keeps_messages)
  then show ?thesis
    by (simp add: messages_handleOpenChat or_else_def truthy_string_def
        defaultWelcomeMessage_def split: option.split)
qed

text \<open>
  A first open with the README's custom welcome message and one with the default, and
  two closes and reopens after it.
\<close>

theorem welcome_inserted_once_witness:
  "messages (handleOpenChat (custom_props (\<lambda>t. Inr \<lparr>payload = JString t\<rparr>)) 0 1 initial_state) =
     [\<lparr>text = ''Hello! I'm your custom AI assistant. How can I help you today?'',
       isUser = False, timestamp = 1\<rparr>] \<and>
   messages (handleOpenChat notes_props 0 1 initial_state) = [welcome_notes] \<and>
   messages (run example_runtime notes_props [CloseChat, OpenChat 0 5, CloseChat, OpenChat 0 9]
      (handleOpenChat notes_props 0 1 initial_state)) = [welcome_notes]"
proof -
  have reopens: "\<forall>e\<in>set [CloseChat, OpenChat 0 5, CloseChat, OpenChat 0 9].
      e = CloseChat \<or> (\<exists>el' now'. e = OpenChat el' now')"
    by simp
  show ?thesis
    using welcome_inserted_once [OF reopens, of initial_state
        "custom_props (\<lambda>t. Inr \<lparr>payload = JString t\<rparr>)" 0 1 example_runtime]
      welcome_inserted_once [OF reopens, of initial_state notes_props 0 1 example_runtime]
    by (simp add: initial_state_def custom_props_def notes_props_def welcome_notes_def)
qed

text \<open>
  Claim C5 as it is stated fails where the configured override is the empty string:
  \<open>welcomeMessage || defaultWelcomeMessage\<close> takes the default, so the text of the
  welcome message is not the override.
\<close>

theorem empty_welcome_override_counterexample:
  "welcomeMessage (notes_props\<lparr>welcomeMessage := Some []\<rparr>) = Some [] \<and>
   messages (handleOpenChat (notes_props\<lparr>welcomeMessage := Some []\<rparr>) 0 1 initial_state) =
     [\<lparr>text = ''Hi there! I'm AiConfigHelper. How can I help you configure the \"Notes\" field?'',
       isUser = False, timestamp = 1\<rparr>]"
  by (simp add: handleOpenChat_def initial_state_def or_else_def truthy_string_def
      defaultWelcomeMessage_def notes_props_def)

text \<open>
  Claim C6: \<open>handleApplyValue\<close> calls nothing when no \<open>onApplyValue\<close> is configured; when
  the text parses, the callback is called with the parsed value (and with nothing else,
  once, when that call returns); when the text does not parse, the callback is called
  once, with the text itself, and the parse error goes nowhere: what leaves the function
  is what the callback throws, if it throws.
\<close>

theorem apply_value_parses_or_passes_through:
  "(onApplyValue props = None \<longrightarrow> handleApplyValue rt props t = ([], None)) \<and>
   (\<forall>callback v. onApplyValue props = Some callback \<and> JSON_parse rt t = Inr v \<longrightarrow>
      fst (handleApplyValue rt props t) \<noteq> [] \<and>
      hd (fst (handleApplyValue rt props t)) = v \<and>
      (callback v = None \<longrightarrow> handleApplyValue rt props t = ([v], None))) \<and>
   (\<forall>callback e. onApplyValue props = Some callback \<and> JSON_parse rt t = Inl e \<longrightarrow>
      handleApplyValue rt props t = ([JString t], callback (JString t)))"
  by (auto simp: handleApplyValue_def split: option.splits)

text \<open>The two texts of the specification's example, and a component without the callback.\<close>

theorem apply_value_parses_or_passes_through_witness:
  "handleApplyValue example_runtime (notes_props\<lparr>onApplyValue := None\<rparr>) ''{\"x\":1}'' = ([], None) \<and>
   handleApplyValue example_runtime notes_props ''{\"x\":1}'' =
     ([JObject [(''x'', JNumber (Finite 1))]], None) \<and>
   handleApplyValue example_runtime notes_props ''hello world'' =
     ([JString ''hello world''], None)"
  using apply_value_parses_or_passes_through
      [of "notes_props\<lparr>onApplyValue := None\<rparr>" example_runtime "''{\"x\":1}''"]
    apply_value_parses_or_passes_through [of notes_props example_runtime "''{\"x\":1}''"]
    apply_value_parses_or_passes_through [of notes_props example_runtime "''hello world''"]
  by (simp add: notes_props_def example_runtime_def)

text \<open>
  Claim C7, as the code has it: a submit of an input that is not blank clears the input
  text at once, in the event itself, and sets the busy flag; when the dispatch settles,
  whatever it settles with, nothing leaves \<open>handleSendMessage\<close>, the busy flag is false,
  and the input text is what it was just before: the \<open>finally\<close> block does not touch it.
\<close>

theorem input_cleared_at_submit_busy_cleared_at_settle:
  assumes "trim (userInput s) \<noteq> []"
  shows "userInput (fst (handleSendMessage props now s)) = [] \<and>
         isLoading (fst (handleSendMessage props now s)) = True \<and>
         fst (handleSendMessage_resume rt props settled date s') = None \<and>
         isLoading (snd (handleSendMessage_resume rt props settled date s')) = False \<and>
         userInput (snd (handleSendMessage_resume rt props settled date s')) = userInput s'"
  using assms by (simp add: handleSendMessage_nonblank resume_frame)

text \<open>
  A submit of \<open>help me\<close> to a handler that rejects, and the rejection arriving when
  \<open>next question\<close> has been typed.
\<close>

theorem input_cleared_at_submit_busy_cleared_at_settle_witness:
  "trim (userInput (chat [welcome_custom] ''help me'' False)) \<noteq> [] \<and>
   userInput (fst (handleSendMessage (custom_props (\<lambda>t. Inl (Error ''offline''))) 2
      (chat [welcome_custom] ''help me'' False))) = [] \<and>
   isLoading (fst (handleSendMessage (custom_props (\<lambda>t. Inl (Error ''offline''))) 2
      (chat [welcome_custom] ''help me'' False))) = True \<and>
   fst (handleSendMessage_resume example_runtime (custom_props (\<lambda>t. Inl (Error ''offline'')))
          (settle (custom_props (\<lambda>t. Inl (Error ''offline'')))
             (OnSendMessage ''help me'' (Inl (Error ''offline''))) 0)
          (\<lambda>k. 3 + int k)
          (chat [welcome_custom, \<lparr>text = ''help me'', isUser = True, timestamp = 2\<rparr>]
             ''next question'' True)) = None \<and>
   isLoading (snd (handleSendMessage_resume example_runtime
          (custom_props (\<lambda>t. Inl (Error ''offline'')))
          (settle (custom_props (\<lambda>t. Inl (Error ''offline'')))
             (OnSendMessage ''help me'' (Inl (Error ''offline''))) 0)
          (\<lambda>k. 3 + int k)
          (chat [welcome_custom, \<lparr>text = ''help me'', isUser = True, timestamp = 2\<rparr>]
             ''next question'' True))) = False \<and>
   userInput (snd (handleSendMessage_resume example_runtime
          (custom_props (\<lambda>t. Inl (Error ''offline'')))
          (settle (custom_props (\<lambda>t. Inl (Error ''offline'')))
             (OnSendMessage ''help me'' (Inl (Error ''offline''))) 0)
          (\<lambda>k. 3 + int k)
          (chat [welcome_custom, \<lparr>text = ''help me'', isUser = True, timestamp = 2\<rparr>]
             ''next question'' True))) = ''next question''"
proof -
  have nonblank: "trim (userInput (chat [welcome_custom] ''help me'' False)) \<noteq> []"
    by (simp add: chat_def trim_def isWhiteSpace_def)
  show ?thesis
    using nonblank
      input_cleared_at_submit_busy_cleared_at_settle [OF nonblank,
        of "custom_props (\<lambda>t. Inl (Error ''offline''))" 2 example_runtime
        "settle (custom_props (\<lambda>t. Inl (Error ''offline'')))
           (OnSendMessage ''help me'' (Inl (Error ''offline''))) 0"
        "\<lambda>k. 3 + int k"
        "chat [welcome_custom, \<lparr>text = ''help me'', isUser = True, timestamp = 2\<rparr>]
           ''next question'' True"]
    by (simp add: chat_def)
qed

text \<open>
  Claim C7 as it is stated fails where the user types while the dispatch is pending: the
  panel is opened, \<open>help me\<close> is typed and submitted, \<open>next question\<close> is typed, the
  handler rejects, and after the settlement the input text is \<open>next question\<close>, not
  cleared.
\<close>

theorem input_survives_settlement_counterexample:
  "run example_runtime (custom_props (\<lambda>t. Inl (Error ''offline'')))
     [OpenChat 0 1, InputChange ''help me'', KeyDown ''Enter'' False 2,
      InputChange ''next question'',
      Settled (settle (custom_props (\<lambda>t. Inl (Error ''offline'')))
                 (OnSendMessage ''help me'' (Inl (Error ''offline''))) 0) (\<lambda>k. 3 + int k)]
     initial_state =
   chat [welcome_custom,
         \<lparr>text = ''help me'', isUser = True, timestamp = 2\<rparr>,
         \<lparr>text = ''Sorry, I encountered an error: offline'', isUser = False, timestamp = 3\<rparr>]
     ''next question'' False"
  by (simp add: handleKeyPress_def handleSendMessage_def handleSendMessage_resume_def
      handleOpenChat_def handleInputChange_def settle_def Let_def append_message_def
      catch_block_def finally_block_def or_else_def truthy_string_def initial_state_def
      welcome_custom_def chat_def custom_props_def trim_def isWhiteSpace_def)



text \<open>
  Claim C9: the message sequence is append-only. Every event leaves the messages it
  finds as a prefix of the messages it leaves, and so does every run of events; the
  events are all the handlers there are, and none of them clears. Closing and reopening
  a panel that has messages leaves them as they are.
\<close>

theorem messages_append_only:
  "prefix (messages s) (messages (step rt props e s)) \<and>
   prefix (messages s) (messages (run rt props es s)) \<and>
   (messages s \<noteq> [] \<longrightarrow>
      messages (run rt props [CloseChat, OpenChat el now] s) = messages s)"
  by (simp add: step_prefix run_prefix messages_handleOpenChat messages_handleCloseChat)

text \<open>
  A run on the field with a handler that rejects: a submit by the Enter key, a close,
  the rejection, a reopen.
\<close>

theorem messages_append_only_witness:
  "prefix (messages (chat [welcome_custom] ''help me'' False))
     (messages (step example_runtime (custom_props (\<lambda>t. Inl (Error ''offline'')))
        (KeyDown ''Enter'' False 2) (chat [welcome_custom] ''help me'' False))) \<and>
   prefix (messages (chat [welcome_custom] ''help me'' False))
     (messages (run example_runtime (custom_props (\<lambda>t. Inl (Error ''offline'')))
        [KeyDown ''Enter'' False 2, CloseChat,
         Settled (settle (custom_props (\<lambda>t. Inl (Error ''offline'')))
                    (OnSendMessage ''help me'' (Inl (Error ''offline''))) 0) (\<lambda>k. 3 + int k),
         OpenChat 0 4]
        (chat [welcome_custom] ''help me'' False))) \<and>
   messages (chat [welcome_custom] ''help me'' False) \<noteq> [] \<and>
   messages (run example_runtime (custom_props (\<lambda>t. Inl (Error ''offline'')))
      [CloseChat, OpenChat 0 4] (chat [welcome_custom] ''help me'' False)) = [welcome_custom]"
  using messages_append_only [of "chat [welcome_custom] ''help me'' False" example_runtime
      "custom_props (\<lambda>t. Inl (Error ''offline''))" "KeyDown ''Enter'' False 2"
      "[KeyDown ''Enter'' False 2, CloseChat,
        Settled (settle (custom_props (\<lambda>t. Inl (Error ''offline'')))
                   (OnSendMessage ''help me'' (Inl (Error ''offline''))) 0) (\<lambda>k. 3 + int k),
        OpenChat 0 4]" 0 4]
  by (simp add: chat_def)

text \<open>
  Claim C10: the style defaults replace every falsy value that is supplied, not only an
  absent one: a width or a maximal height of zero (or \<open>NaN\<close>) and an empty colour give
  320, 400, \<open>primary.main\<close>, \<open>white\<close> and \<open>grey.100\<close>, so that no zero dimension and no
  empty colour reaches the component's styles.
\<close>

theorem falsy_styles_fall_back_to_defaults:
  assumes "styles props = Some st"
  shows "cs_width (componentStyles props) =
           (case width st of
              None \<Rightarrow> Finite 320
            | Some n \<Rightarrow> if n = Finite 0 \<or> n = NaN then Finite 320 else n) \<and>
         cs_maxHeight (componentStyles props) =
           (case maxHeight st of
              None \<Rightarrow> Finite 400
            | Some n \<Rightarrow> if n = Finite 0 \<or> n = NaN then Finite 400 else n) \<and>
         cs_userMessageColor (componentStyles props) =
           (case userMessageColor st of
              None \<Rightarrow> ''primary.main''
            | Some c \<Rightarrow> if c = [] then ''primary.main'' else c) \<and>
         cs_userMessageTextColor (componentStyles props) =
           (case userMessageTextColor st of
              None \<Rightarrow> ''white''
            | Some c \<Rightarrow> if c = [] then ''white'' else c) \<and>
         cs_assistantMessageColor (componentStyles props) =
           (case assistantMessageColor st of
              None \<Rightarrow> ''grey.100''
            | Some c \<Rightarrow> if c = [] then ''grey.100'' else c) \<and>
         cs_width (componentStyles props) \<noteq> Finite 0 \<and>
         cs_maxHeight (componentStyles props) \<noteq> Finite 0 \<and>
         cs_userMessageColor (componentStyles props) \<noteq> [] \<and>
         cs_userMessageTextColor (componentStyles props) \<noteq> [] \<and>
         cs_assistantMessageColor (componentStyles props) \<noteq> []"
  using assms
  by (simp add: componentStyles_def or_else_def truthy_number_def truthy_string_def
      split: option.split)

text \<open>Styles with both dimensions zero and all three colours empty.\<close>

theorem falsy_styles_fall_back_to_defaults_witness:
  "styles (notes_props\<lparr>styles := Some \<lparr>width = Some (Finite 0), maxHeight = Some (Finite 0),
       assistantMessageColor = Some [], userMessageColor = Some [],
       userMessageTextColor = Some []\<rparr>\<rparr>) =
     Some \<lparr>width = Some (Finite 0), maxHeight = Some (Finite 0),
       assistantMessageColor = Some [], userMessageColor = Some [],
       userMessageTextColor = Some []\<rparr> \<and>
   componentStyles (notes_props\<lparr>styles := Some \<lparr>width = Some (Finite 0),
       maxHeight = Some (Finite 0), assistantMessageColor = Some [],
       userMessageColor = Some [], userMessageTextColor = Some []\<rparr>\<rparr>) =
     \<lparr>cs_width = Finite 320, cs_maxHeight = Finite 400, cs_userMessageColor = ''primary.main'',
      cs_userMessageTextColor = ''white'', cs_assistantMessageColor = ''grey.100''\<rparr>"
proof -
  let ?st = "\<lparr>width = Some (Finite 0), maxHeight = Some (Finite 0),
       assistantMessageColor = Some [], userMessageColor = Some [],
       userMessageTextColor = Some []\<rparr>"
  have given: "styles (notes_props\<lparr>styles := Some ?st\<rparr>) = Some ?st" by simp
  from falsy_styles_fall_back_to_defaults [OF given] given
  show ?thesis by (cases "componentStyles (notes_props\<lparr>styles := Some ?st\<rparr>)") simp
qed

end
